theory Spec2Isabelle
  imports Complex_Main
begin

section \<open>Python values, dictionaries and exceptions\<close>

text \<open>
  The pipeline passes plain Python dictionaries between its stages. A dictionary is an
  association list in insertion order; a value is one of the shapes the code handles.
  Python floats are read as real numbers: rounding, overflow and NaN are outside this model.
  Strings are lists of characters with code points below 256; case and white space are
  decided for the ASCII range.
\<close>

datatype pyval =
    PNone
  | PStr string
  | PInt int
  | PFloat real
  | PList "pyval list"
  | PDict "(string \<times> pyval) list"

type_synonym pydict = "(string \<times> pyval) list"

text \<open>
  An exception is a value of class \<open>Exception\<close>, the class every handler of the code
  catches. Interpreter exit and the cancellation of an awaiting task are not of that class
  and are outside this model.
\<close>

datatype exn =
    KeyError string
  | TypeError string
  | AttributeError string
  | IndexError string
  | ValueError string
  | RequestException string
  | OtherException string

text \<open>\<open>str(e)\<close>: a KeyError prints the repr of its key, the others their message.\<close>

fun str_exn :: "exn \<Rightarrow> string" where
  "str_exn (KeyError k) = [CHR 0x27] @ k @ [CHR 0x27]"
| "str_exn (TypeError m) = m"
| "str_exn (AttributeError m) = m"
| "str_exn (IndexError m) = m"
| "str_exn (ValueError m) = m"
| "str_exn (RequestException m) = m"
| "str_exn (OtherException m) = m"

text \<open>Sequencing of statements that may raise: the first exception ends the block.\<close>

definition exn_bind :: "exn + 'a \<Rightarrow> ('a \<Rightarrow> exn + 'b) \<Rightarrow> exn + 'b" where
  "exn_bind m f = (case m of Inl e \<Rightarrow> Inl e | Inr x \<Rightarrow> f x)"

text \<open>\<open>d[k]\<close> raises KeyError on a missing key; \<open>d.get(k, default)\<close> does not.\<close>

definition getitem :: "pydict \<Rightarrow> string \<Rightarrow> exn + pyval" where
  "getitem d k = (case map_of d k of None \<Rightarrow> Inl (KeyError k) | Some v \<Rightarrow> Inr v)"

definition dict_get :: "pydict \<Rightarrow> string \<Rightarrow> pyval \<Rightarrow> pyval" where
  "dict_get d k dflt = (case map_of d k of None \<Rightarrow> dflt | Some v \<Rightarrow> v)"

text \<open>\<open>len(x)\<close> raises TypeError on a value that has no length.\<close>

fun py_len :: "pyval \<Rightarrow> exn + int" where
  "py_len (PStr s) = Inr (int (length s))"
| "py_len (PList xs) = Inr (int (length xs))"
| "py_len (PDict d) = Inr (int (length d))"
| "py_len PNone = Inl (TypeError ''object of type NoneType has no len()'')"
| "py_len (PInt i) = Inl (TypeError ''object of type int has no len()'')"
| "py_len (PFloat r) = Inl (TypeError ''object of type float has no len()'')"

section \<open>String methods\<close>

definition isspace :: "char \<Rightarrow> bool" where
  "isspace c = (of_char c \<in> {9, 10, 11, 12, 13, 28, 29, 30, 31, 32 :: nat})"

definition isupper :: "char \<Rightarrow> bool" where
  "isupper c = (65 \<le> (of_char c :: nat) \<and> (of_char c :: nat) \<le> 90)"

definition islower :: "char \<Rightarrow> bool" where
  "islower c = (97 \<le> (of_char c :: nat) \<and> (of_char c :: nat) \<le> 122)"

definition lower_char :: "char \<Rightarrow> char" where
  "lower_char c = (if isupper c then char_of (of_char c + (32 :: nat)) else c)"

definition upper_char :: "char \<Rightarrow> char" where
  "upper_char c = (if islower c then char_of (of_char c - (32 :: nat)) else c)"

definition strip :: "string \<Rightarrow> string" where
  "strip s = rev (dropWhile isspace (rev (dropWhile isspace s)))"


text \<open>
  \<open>str.title()\<close>: a cased character that follows an uncased one is upper-cased, a cased
  character that follows a cased one is lower-cased. The flag is "previous is cased".
\<close>

fun title_from :: "bool \<Rightarrow> string \<Rightarrow> string" where
  "title_from prev [] = []"
| "title_from prev (c # cs) =
     (if islower c then (if prev then c else upper_char c) # title_from True cs
      else if isupper c then (if prev then lower_char c else c) # title_from True cs
      else c # title_from False cs)"

definition title :: "string \<Rightarrow> string" where
  "title s = title_from False s"

section \<open>Language model service\<close>









section \<open>Intent classification\<close>






section \<open>Pipeline driver\<close>

definition initial_state :: "string \<Rightarrow> pydict" where
  "initial_state query =
     [(''query'', PStr query), (''intent'', PStr ''''), (''weather_data'', PDict []),
      (''retrieved_docs'', PList []), (''final_response'', PStr ''''), (''metadata'', PDict [])]"

definition error_response :: string where
  "error_response = ''I encountered an error while processing your request. Please try again.''"

text \<open>
  The try block of \<open>process_query\<close>. Running the compiled graph is the call into the
  workflow library: it returns the final state or raises.
\<close>

definition process_query_body :: "(pydict \<Rightarrow> exn + pydict) \<Rightarrow> string \<Rightarrow> exn + pydict" where
  "process_query_body graph_invoke query =
     exn_bind (graph_invoke (initial_state query)) (\<lambda>result.
     exn_bind (getitem result ''intent'') (\<lambda>intent.
     exn_bind (getitem result ''final_response'') (\<lambda>response.
     exn_bind (getitem result ''weather_data'') (\<lambda>weather_data.
     exn_bind (getitem result ''retrieved_docs'') (\<lambda>docs.
     exn_bind (py_len docs) (\<lambda>n.
     exn_bind (getitem result ''metadata'') (\<lambda>metadata.
       Inr [(''query'', PStr query), (''intent'', intent), (''response'', response),
            (''weather_data'', weather_data), (''retrieved_docs_count'', PInt n),
            (''metadata'', metadata)])))))))"

definition process_query_fallback :: "string \<Rightarrow> exn \<Rightarrow> pydict" where
  "process_query_fallback query e =
     [(''query'', PStr query), (''intent'', PStr ''unknown''), (''response'', PStr error_response),
      (''weather_data'', PDict []), (''retrieved_docs_count'', PInt 0),
      (''metadata'', PDict [(''error'', PStr (str_exn e))])]"

definition process_query :: "(pydict \<Rightarrow> exn + pydict) \<Rightarrow> string \<Rightarrow> pydict" where
  "process_query graph_invoke query =
     (case process_query_body graph_invoke query of
        Inr r \<Rightarrow> r
      | Inl e \<Rightarrow> process_query_fallback query e)"

text \<open>The awaitable variant runs the same statements on the graph's awaitable entry point.\<close>

definition aprocess_query :: "(pydict \<Rightarrow> exn + pydict) \<Rightarrow> string \<Rightarrow> pydict" where
  "aprocess_query graph_ainvoke query =
     (case process_query_body graph_ainvoke query of
        Inr r \<Rightarrow> r
      | Inl e \<Rightarrow> process_query_fallback query e)"

definition result_keys :: "string list" where
  "result_keys =
     [''query'', ''intent'', ''response'', ''weather_data'', ''retrieved_docs_count'', ''metadata'']"

section \<open>PDF service\<close>

text \<open>
  Three external capabilities: \<open>read_pdf\<close> opens the file and yields, for each page, the
  outcome of its text extraction; \<open>split_text\<close> is the recursive character splitter;
  \<open>encode\<close> is the sentence-embedding model.
\<close>

fun join_pages :: "string \<Rightarrow> (exn + string) list \<Rightarrow> exn + string" where
  "join_pages text [] = Inr text"
| "join_pages text (page # pages) =
     (case page of
        Inl e \<Rightarrow> Inl e
      | Inr t \<Rightarrow> join_pages (text @ t @ [CHR 0x0A]) pages)"

definition extract_text_from_pdf ::
  "(string \<Rightarrow> exn + (exn + string) list) \<Rightarrow> string \<Rightarrow> string" where
  "extract_text_from_pdf read_pdf pdf_path =
     (case exn_bind (read_pdf pdf_path) (join_pages []) of
        Inr text \<Rightarrow> text
      | Inl e \<Rightarrow> [])"

definition chunk_text :: "(string \<Rightarrow> string list) \<Rightarrow> string \<Rightarrow> string list" where
  "chunk_text split_text text = (if strip text = [] then [] else split_text text)"

definition create_embeddings ::
  "(string list \<Rightarrow> exn + real list list) \<Rightarrow> string list \<Rightarrow> real list list" where
  "create_embeddings encode chunks =
     (case encode chunks of Inr embeddings \<Rightarrow> embeddings | Inl e \<Rightarrow> [])"

definition create_query_embedding ::
  "(string list \<Rightarrow> exn + real list list) \<Rightarrow> string \<Rightarrow> real list" where
  "create_query_embedding encode query =
     (case encode [query] of
        Inr (embedding # rest) \<Rightarrow> embedding
      | Inr [] \<Rightarrow> []
      | Inl e \<Rightarrow> [])"

definition process_pdf ::
  "(string \<Rightarrow> exn + (exn + string) list) \<Rightarrow> (string \<Rightarrow> string list)
     \<Rightarrow> (string list \<Rightarrow> exn + real list list) \<Rightarrow> string \<Rightarrow> pydict" where
  "process_pdf read_pdf split_text encode pdf_path =
     (let text = extract_text_from_pdf read_pdf pdf_path
      in if text = [] then [(''chunks'', PList []), (''embeddings'', PList [])]
         else let chunks = chunk_text split_text text
              in if chunks = [] then [(''chunks'', PList []), (''embeddings'', PList [])]
                 else let embeddings = create_embeddings encode chunks
                      in [(''chunks'', PList (map PStr chunks)),
                          (''embeddings'', PList (map (\<lambda>v. PList (map PFloat v)) embeddings)),
                          (''metadata'',
                             PDict [(''source'', PStr pdf_path),
                                    (''total_chunks'', PInt (int (length chunks)))])])"

section \<open>Weather service\<close>

text \<open>\<open>x.get(k, default)\<close> and \<open>x[0]\<close> on an arbitrary JSON value.\<close>

fun val_get :: "pyval \<Rightarrow> string \<Rightarrow> pyval \<Rightarrow> exn + pyval" where
  "val_get (PDict d) k dflt = Inr (dict_get d k dflt)"
| "val_get v k dflt = Inl (AttributeError ''object has no attribute get'')"

fun first_item :: "pyval \<Rightarrow> exn + pyval" where
  "first_item (PList []) = Inl (IndexError ''list index out of range'')"
| "first_item (PList (x # xs)) = Inr x"
| "first_item (PStr []) = Inl (IndexError ''string index out of range'')"
| "first_item (PStr (c # cs)) = Inr (PStr [c])"
| "first_item (PDict d) = Inl (KeyError ''0'')"
| "first_item v = Inl (TypeError ''object is not subscriptable'')"

text \<open>
  The try block of \<open>get_weather\<close>. The HTTP request with its status check and JSON decoding
  is the external capability \<open>http_get\<close>.
\<close>

definition get_weather_body :: "(string \<Rightarrow> exn + pyval) \<Rightarrow> string \<Rightarrow> exn + pydict option" where
  "get_weather_body http_get city =
     exn_bind (http_get city) (\<lambda>data.
     exn_bind (val_get data ''cod'' PNone) (\<lambda>cod.
       if cod \<notin> {PInt 200, PFloat 200, PStr ''200''} then Inr None
       else
         exn_bind (val_get data ''name'' (PStr city)) (\<lambda>name.
         exn_bind (val_get data ''sys'' (PDict [])) (\<lambda>sys.
         exn_bind (val_get sys ''country'' (PStr '''')) (\<lambda>country.
         exn_bind (val_get data ''main'' (PDict [])) (\<lambda>main.
         exn_bind (val_get main ''temp'' PNone) (\<lambda>temperature.
         exn_bind (val_get main ''feels_like'' PNone) (\<lambda>feels_like.
         exn_bind (val_get main ''humidity'' PNone) (\<lambda>humidity.
         exn_bind (val_get data ''weather'' (PList [PDict []])) (\<lambda>weather.
         exn_bind (first_item weather) (\<lambda>w0.
         exn_bind (val_get w0 ''description'' (PStr '''')) (\<lambda>description.
         exn_bind (val_get data ''wind'' (PDict [])) (\<lambda>wind.
         exn_bind (val_get wind ''speed'' PNone) (\<lambda>wind_speed.
           Inr (Some [(''city'', name), (''country'', country), (''temperature'', temperature),
                      (''feels_like'', feels_like), (''humidity'', humidity),
                      (''description'', description), (''wind_speed'', wind_speed)])))))))))))))))"

text \<open>The two handlers; any other exception leaves the function.\<close>

fun get_weather_handlers :: "exn \<Rightarrow> exn + pydict option" where
  "get_weather_handlers (RequestException m) = Inr None"
| "get_weather_handlers (KeyError m) = Inr None"
| "get_weather_handlers (TypeError m) = Inr None"
| "get_weather_handlers (IndexError m) = Inr None"
| "get_weather_handlers e = Inl e"

definition get_weather :: "(string \<Rightarrow> exn + pyval) \<Rightarrow> string \<Rightarrow> exn + pydict option" where
  "get_weather http_get city =
     (case get_weather_body http_get city of
        Inr r \<Rightarrow> Inr r
      | Inl e \<Rightarrow> get_weather_handlers e)"

subsection \<open>The weather summary\<close>

definition digit_char :: "nat \<Rightarrow> char" where
  "digit_char d = char_of (48 + d)"

fun str_nat :: "nat \<Rightarrow> string" where
  "str_nat n = (if n < 10 then [digit_char n] else str_nat (n div 10) @ [digit_char (n mod 10)])"

definition str_int :: "int \<Rightarrow> string" where
  "str_int i = (if i < 0 then CHR ''-'' # str_nat (nat (- i)) else str_nat (nat i))"

text \<open>
  A replacement field \<open>{v}\<close> of a formatted string. How Python prints a float or a container
  is left to the parameter \<open>py_str\<close>.
\<close>

fun fmt :: "(pyval \<Rightarrow> string) \<Rightarrow> pyval \<Rightarrow> string" where
  "fmt py_str (PStr s) = s"
| "fmt py_str PNone = ''None''"
| "fmt py_str (PInt i) = str_int i"
| "fmt py_str v = py_str v"

fun title_of :: "pyval \<Rightarrow> exn + string" where
  "title_of (PStr s) = Inr (title s)"
| "title_of v = Inl (AttributeError ''object has no attribute title'')"

definition deg :: string where
  "deg = [CHR 0xB0]"

definition nl :: string where
  "nl = [CHR 0x0A]"

definition weather_lines :: "string \<Rightarrow> string \<Rightarrow> string \<Rightarrow> string \<Rightarrow> string \<Rightarrow> string \<Rightarrow> string
     \<Rightarrow> string" where
  "weather_lines city country temperature feels_like condition humidity wind_speed =
     ''Weather in '' @ city @ '', '' @ country @ '':'' @ nl
     @ ''- Temperature: '' @ temperature @ deg @ ''C (feels like '' @ feels_like @ deg @ ''C)'' @ nl
     @ ''- Condition: '' @ condition @ nl
     @ ''- Humidity: '' @ humidity @ ''%'' @ nl
     @ ''- Wind Speed: '' @ wind_speed @ '' m/s''"

definition format_weather_response :: "(pyval \<Rightarrow> string) \<Rightarrow> pydict \<Rightarrow> exn + string" where
  "format_weather_response py_str weather_data =
     (if weather_data = [] then Inr ''Weather data not available.''
      else
        exn_bind (title_of (dict_get weather_data ''description'' (PStr ''Unknown''))) (\<lambda>condition.
          Inr (weather_lines
                 (fmt py_str (dict_get weather_data ''city'' (PStr ''Unknown'')))
                 (fmt py_str (dict_get weather_data ''country'' (PStr '''')))
                 (fmt py_str (dict_get weather_data ''temperature'' (PStr ''N/A'')))
                 (fmt py_str (dict_get weather_data ''feels_like'' (PStr ''N/A'')))
                 condition
                 (fmt py_str (dict_get weather_data ''humidity'' (PStr ''N/A'')))
                 (fmt py_str (dict_get weather_data ''wind_speed'' (PStr ''N/A''))))))"

section \<open>Vector store\<close>

text \<open>
  A record of the in-memory store, a point sent to the persistent store and a hit returned
  by it. The persistent store is the external capability: each of its calls returns or raises.
\<close>

record item =
  item_id :: string
  item_vector :: "real list"
  item_text :: string
  item_chunk_index :: nat
  item_metadata :: pydict

record point =
  point_id :: string
  point_vector :: "real list"
  point_payload :: pydict

record scored_point =
  sp_payload :: "pydict option"
  sp_score :: real

record qdrant =
  get_collections :: "exn + string list"
  create_collection :: "exn + unit"
  upsert :: "point list \<Rightarrow> exn + unit"
  search :: "real list \<Rightarrow> int \<Rightarrow> exn + scored_point list"
  get_collection :: "exn + pyval \<times> pyval \<times> pyval"

text \<open>
  The instance: the backend flag, the in-memory list (\<open>None\<close> while the attribute
  \<open>_memory_store\<close> has never been assigned) and the number of identifiers drawn so far.
\<close>

record vector_store =
  use_cloud :: bool
  memory_store :: "item list option"
  uuid_calls :: nat

definition collection_name :: string where
  "collection_name = ''pdf_embeddings''"

definition no_memory_store :: exn where
  "no_memory_store = AttributeError ''VectorStore object has no attribute _memory_store''"

text \<open>\<open>metadata or {}\<close>\<close>

definition or_empty :: "pydict option \<Rightarrow> pydict" where
  "or_empty metadata = (case metadata of None \<Rightarrow> [] | Some d \<Rightarrow> d)"

text \<open>A dictionary display with unpacking: a later key overrides the value, in place.\<close>

fun dict_set :: "pydict \<Rightarrow> string \<Rightarrow> pyval \<Rightarrow> pydict" where
  "dict_set [] k v = [(k, v)]"
| "dict_set ((k', v') # d) k v = (if k' = k then (k, v) # d else (k', v') # dict_set d k v)"

definition dict_merge :: "pydict \<Rightarrow> pydict \<Rightarrow> pydict" where
  "dict_merge d e = foldl (\<lambda>acc kv. dict_set acc (fst kv) (snd kv)) d e"

definition ensure_collection :: "qdrant \<Rightarrow> vector_store \<Rightarrow> vector_store" where
  "ensure_collection cloud s =
     (if \<not> use_cloud s then s
      else case exn_bind (get_collections cloud) (\<lambda>collection_names.
                  if collection_name \<notin> set collection_names
                  then create_collection cloud else Inr ()) of
             Inr u \<Rightarrow> s
           | Inl e \<Rightarrow> s\<lparr>use_cloud := False, memory_store := Some []\<rparr>)"

definition VectorStore_init :: "string \<Rightarrow> string \<Rightarrow> qdrant \<Rightarrow> vector_store" where
  "VectorStore_init qdrant_url qdrant_api_key cloud =
     (if qdrant_url \<noteq> [] \<and> qdrant_api_key \<noteq> []
      then ensure_collection cloud \<lparr>use_cloud = True, memory_store = None, uuid_calls = 0\<rparr>
      else \<lparr>use_cloud = False, memory_store = Some [], uuid_calls = 0\<rparr>)"

text \<open>
  The loop of \<open>_store_memory\<close> over \<open>enumerate(zip(chunks, embeddings))\<close>. Reading the
  attribute \<open>_memory_store\<close> comes first in each append, before an identifier is drawn.
\<close>

fun store_memory_loop ::
  "(nat \<Rightarrow> string) \<Rightarrow> pydict option \<Rightarrow> (nat \<times> string \<times> real list) list \<Rightarrow> vector_store
     \<Rightarrow> exn option \<times> vector_store" where
  "store_memory_loop uuid4 metadata [] s = (None, s)"
| "store_memory_loop uuid4 metadata ((i, chunk, embedding) # rest) s =
     (case memory_store s of
        None \<Rightarrow> (Some no_memory_store, s)
      | Some ms \<Rightarrow>
          store_memory_loop uuid4 metadata rest
            (s\<lparr>memory_store :=
                 Some (ms @ [\<lparr>item_id = uuid4 (uuid_calls s), item_vector = embedding,
                              item_text = chunk, item_chunk_index = i,
                              item_metadata = or_empty metadata\<rparr>]),
               uuid_calls := Suc (uuid_calls s)\<rparr>))"

definition store_memory ::
  "(nat \<Rightarrow> string) \<Rightarrow> string list \<Rightarrow> real list list \<Rightarrow> pydict option \<Rightarrow> vector_store
     \<Rightarrow> bool \<times> vector_store" where
  "store_memory uuid4 chunks embeddings metadata s =
     (case store_memory_loop uuid4 metadata (enumerate 0 (zip chunks embeddings)) s of
        (None, s') \<Rightarrow> (True, s')
      | (Some e, s') \<Rightarrow> (False, s'))"

fun build_points ::
  "(nat \<Rightarrow> string) \<Rightarrow> pydict option \<Rightarrow> nat \<Rightarrow> (nat \<times> string \<times> real list) list \<Rightarrow> point list" where
  "build_points uuid4 metadata n [] = []"
| "build_points uuid4 metadata n ((i, chunk, embedding) # rest) =
     \<lparr>point_id = uuid4 n, point_vector = embedding,
      point_payload = dict_merge [(''text'', PStr chunk), (''chunk_index'', PInt (int i))]
                        (or_empty metadata)\<rparr>
     # build_points uuid4 metadata (Suc n) rest"

definition store_cloud ::
  "(nat \<Rightarrow> string) \<Rightarrow> qdrant \<Rightarrow> string list \<Rightarrow> real list list \<Rightarrow> pydict option
     \<Rightarrow> vector_store \<Rightarrow> bool \<times> vector_store" where
  "store_cloud uuid4 cloud chunks embeddings metadata s =
     (let pairs = enumerate 0 (zip chunks embeddings);
          points = build_points uuid4 metadata (uuid_calls s) pairs;
          s1 = s\<lparr>uuid_calls := uuid_calls s + length pairs\<rparr>
      in case upsert cloud points of
           Inr u \<Rightarrow> (True, s1)
         | Inl e \<Rightarrow> store_memory uuid4 chunks embeddings metadata (s1\<lparr>use_cloud := False\<rparr>))"

definition store_embeddings ::
  "(nat \<Rightarrow> string) \<Rightarrow> qdrant \<Rightarrow> string list \<Rightarrow> real list list \<Rightarrow> pydict option
     \<Rightarrow> vector_store \<Rightarrow> bool \<times> vector_store" where
  "store_embeddings uuid4 cloud chunks embeddings metadata s =
     (if use_cloud s then store_cloud uuid4 cloud chunks embeddings metadata s
      else store_memory uuid4 chunks embeddings metadata s)"

subsection \<open>Cosine similarity\<close>

definition dot :: "real list \<Rightarrow> real list \<Rightarrow> real" where
  "dot v1 v2 = sum_list (map (\<lambda>p. fst p * snd p) (zip v1 v2))"

definition norm2 :: "real list \<Rightarrow> real" where
  "norm2 v = sqrt (sum_list (map (\<lambda>x. x * x) v))"

text \<open>The dot product of two arrays of different lengths raises; the handler returns 0.0.\<close>

definition cosine_similarity_body :: "real list \<Rightarrow> real list \<Rightarrow> exn + real" where
  "cosine_similarity_body vec1 vec2 =
     (if length vec1 \<noteq> length vec2 then Inl (ValueError ''shapes not aligned'')
      else let dot_product = dot vec1 vec2; norm1 = norm2 vec1; norm2' = norm2 vec2
           in if norm1 = 0 \<or> norm2' = 0 then Inr 0
              else Inr (dot_product / (norm1 * norm2')))"

definition cosine_similarity :: "real list \<Rightarrow> real list \<Rightarrow> real" where
  "cosine_similarity vec1 vec2 =
     (case cosine_similarity_body vec1 vec2 of Inr r \<Rightarrow> r | Inl e \<Rightarrow> 0)"

subsection \<open>Search\<close>

text \<open>\<open>list.sort(key=..., reverse=True)\<close>: descending, and stable like the ascending sort.\<close>

definition sort_reverse :: "('a \<Rightarrow> real) \<Rightarrow> 'a list \<Rightarrow> 'a list" where
  "sort_reverse key xs = rev (sort_key key (rev xs))"

text \<open>The slice \<open>xs[:limit]\<close>: a negative bound counts from the end.\<close>

definition slice_to :: "int \<Rightarrow> 'a list \<Rightarrow> 'a list" where
  "slice_to limit xs =
     (if 0 \<le> limit then take (nat limit) xs else take (length xs - nat (- limit)) xs)"

definition match_of :: "real \<times> item \<Rightarrow> pydict" where
  "match_of p =
     [(''text'', PStr (item_text (snd p))), (''score'', PFloat (fst p)),
      (''metadata'', PDict (item_metadata (snd p)))]"

definition similarities :: "real list \<Rightarrow> item list \<Rightarrow> (real \<times> item) list" where
  "similarities query_embedding ms =
     map (\<lambda>it. (cosine_similarity query_embedding (item_vector it), it)) ms"

text \<open>
  The parameter \<open>query_emb\<close> stands for \<open>self.pdf_service.create_query_embedding\<close>: the
  embedding of the query, or the empty list when the embedding model fails.
\<close>

definition search_memory_body ::
  "(string \<Rightarrow> real list) \<Rightarrow> string \<Rightarrow> int \<Rightarrow> vector_store \<Rightarrow> exn + pydict list" where
  "search_memory_body query_emb query limit s =
     (case memory_store s of
        None \<Rightarrow> Inl no_memory_store
      | Some ms \<Rightarrow>
          if ms = [] then Inr []
          else let query_embedding = query_emb query
               in if query_embedding = [] then Inr []
                  else Inr (map match_of
                         (slice_to limit (sort_reverse fst (similarities query_embedding ms)))))"

definition search_memory ::
  "(string \<Rightarrow> real list) \<Rightarrow> string \<Rightarrow> int \<Rightarrow> vector_store \<Rightarrow> pydict list" where
  "search_memory query_emb query limit s =
     (case search_memory_body query_emb query limit s of Inr r \<Rightarrow> r | Inl e \<Rightarrow> [])"




text \<open>The local branch of \<open>get_collection_info\<close> reads the memory list outside any handler.\<close>

definition get_collection_info :: "qdrant \<Rightarrow> vector_store \<Rightarrow> exn + pydict" where
  "get_collection_info cloud s =
     (if use_cloud s then
        (case get_collection cloud of
           Inr (vector_size, distance, points_count) \<Rightarrow>
             Inr [(''name'', PStr collection_name), (''vector_size'', vector_size),
                  (''distance'', distance), (''points_count'', points_count),
                  (''storage'', PStr ''Qdrant Cloud'')]
         | Inl e \<Rightarrow>
             Inr [(''name'', PStr collection_name), (''storage'', PStr ''Qdrant Cloud (error)''),
                  (''error'', PStr (str_exn e))])
      else case memory_store s of
             None \<Rightarrow> Inl no_memory_store
           | Some ms \<Rightarrow>
               Inr [(''name'', PStr collection_name), (''storage'', PStr ''In-Memory''),
                    (''points_count'', PInt (int (length ms))), (''vector_size'', PInt 384)])"

subsection \<open>Histories of operations on one instance\<close>




subsection \<open>Sample environments\<close>

text \<open>
  A persistent store that answers, one whose every call raises, a generator of identifiers
  that never repeats, and a small in-memory store whose last two records have the same vector.
\<close>

definition reachable_cloud :: qdrant where
  "reachable_cloud =
     \<lparr>get_collections = Inr [collection_name],
      create_collection = Inr (),
      upsert = (\<lambda>points. Inr ()),
      search = (\<lambda>query_vector limit. Inr []),
      get_collection = Inr (PInt 384, PStr ''Cosine'', PInt 0)\<rparr>"

definition unreachable_cloud :: qdrant where
  "unreachable_cloud =
     \<lparr>get_collections = Inl (OtherException ''connection refused''),
      create_collection = Inl (OtherException ''connection refused''),
      upsert = (\<lambda>points. Inl (OtherException ''connection refused'')),
      search = (\<lambda>query_vector limit. Inl (OtherException ''connection refused'')),
      get_collection = Inl (OtherException ''connection refused'')\<rparr>"

definition serial_id :: "nat \<Rightarrow> string" where
  "serial_id k = replicate k CHR ''x''"

definition sample_item :: "string \<Rightarrow> real list \<Rightarrow> string \<Rightarrow> item" where
  "sample_item i v t =
     \<lparr>item_id = i, item_vector = v, item_text = t, item_chunk_index = 0, item_metadata = []\<rparr>"

definition sample_store :: vector_store where
  "sample_store =
     \<lparr>use_cloud = False,
      memory_store = Some [sample_item ''id-a'' [0, 1] ''a'', sample_item ''id-b'' [1, 0] ''b'',
                           sample_item ''id-c'' [1, 0] ''c''],
      uuid_calls = 3\<rparr>"

section \<open>The driver always returns a result record\<close>

lemma process_query_body_keys:
  "process_query_body g q = Inr r \<Longrightarrow> map fst r = result_keys"
  by (auto simp: process_query_body_def exn_bind_def result_keys_def split: sum.splits)

text \<open>
  Claim C1. For every run of the graph (returning a final state or raising) and every query
  string, \<open>process_query\<close> and \<open>aprocess_query\<close> return a mapping whose keys are query,
  intent, response, weather_data, retrieved_docs_count and metadata. When an exception
  reaches the driver (from the graph run or from reading its result), the record has intent
  "unknown", the fixed error response, and the exception text under metadata["error"].
\<close>

theorem process_query_never_raises:
  "map fst (process_query g q) = result_keys
   \<and> map fst (aprocess_query g q) = result_keys
   \<and> (\<forall>e. process_query_body g q = Inl e \<longrightarrow>
        process_query g q = process_query_fallback q e
        \<and> aprocess_query g q = process_query_fallback q e
        \<and> map_of (process_query g q) ''intent'' = Some (PStr ''unknown'')
        \<and> map_of (process_query g q) ''response'' = Some (PStr error_response)
        \<and> map_of (process_query g q) ''metadata'' = Some (PDict [(''error'', PStr (str_exn e))]))"
proof -
  have k: "map fst (process_query_fallback q e) = result_keys" for e
    by (simp add: process_query_fallback_def result_keys_def)
  have 1: "map fst (process_query g q) = result_keys"
    by (cases "process_query_body g q")
       (simp_all add: process_query_def k process_query_body_keys)
  have 2: "map fst (aprocess_query g q) = result_keys"
    by (cases "process_query_body g q")
       (simp_all add: aprocess_query_def k process_query_body_keys)
  show ?thesis using 1 2
    by (simp add: process_query_def aprocess_query_def process_query_fallback_def)
qed

theorem process_query_never_raises_witness:
  "process_query_body (\<lambda>s. Inl (OtherException ''boom'')) '''' = Inl (OtherException ''boom'')
   \<and> process_query (\<lambda>s. Inl (OtherException ''boom'')) '''' =
       [(''query'', PStr ''''), (''intent'', PStr ''unknown''), (''response'', PStr error_response),
        (''weather_data'', PDict []), (''retrieved_docs_count'', PInt 0),
        (''metadata'', PDict [(''error'', PStr ''boom'')])]"
  using process_query_never_raises [of "\<lambda>s. Inl (OtherException ''boom'')" "''''"]
  by (simp add: process_query_body_def exn_bind_def process_query_fallback_def)

section \<open>Intent classification stays in the closed set\<close>




section \<open>What classification records in the metadata\<close>




section \<open>The ingestion result\<close>

lemma chunk_text_empty: "chunk_text split_text [] = []"
  by (simp add: chunk_text_def strip_def)

text \<open>
  Claim C9, as stated, fails. For a path whose extraction yields no text, the result has
  the keys chunks and embeddings only: there is no metadata key.
\<close>

theorem process_pdf_metadata_counterexample:
  "process_pdf (\<lambda>p. Inl (OtherException ''no such file'')) (\<lambda>t. [t]) (\<lambda>cs. Inr []) ''missing.pdf''
     = [(''chunks'', PList []), (''embeddings'', PList [])]
   \<and> map_of (process_pdf (\<lambda>p. Inl (OtherException ''no such file'')) (\<lambda>t. [t]) (\<lambda>cs. Inr [])
        ''missing.pdf'') ''metadata'' = None"
  by (simp add: process_pdf_def extract_text_from_pdf_def exn_bind_def)

text \<open>
  Claim C9, amended. For every PDF path the result has the keys chunks and embeddings.
  When the chunk sequence is empty (no text extracted, or only white space) the result is
  exactly the two empty lists, with no metadata; when it is non-empty the result also has
  metadata, made of source (the path) and total_chunks (the number of chunks).
\<close>

theorem process_pdf_keys:
  "map_of (process_pdf read_pdf split_text encode p) ''chunks'' =
     Some (PList (map PStr (chunk_text split_text (extract_text_from_pdf read_pdf p))))
   \<and> (\<exists>es. map_of (process_pdf read_pdf split_text encode p) ''embeddings'' = Some (PList es))
   \<and> (chunk_text split_text (extract_text_from_pdf read_pdf p) = [] \<longrightarrow>
        process_pdf read_pdf split_text encode p = [(''chunks'', PList []), (''embeddings'', PList [])])
   \<and> (chunk_text split_text (extract_text_from_pdf read_pdf p) \<noteq> [] \<longrightarrow>
        map_of (process_pdf read_pdf split_text encode p) ''metadata'' =
          Some (PDict [(''source'', PStr p),
                       (''total_chunks'',
                          PInt (int (length (chunk_text split_text (extract_text_from_pdf read_pdf p)))))]))"
  by (cases "extract_text_from_pdf read_pdf p = []")
     (simp_all add: process_pdf_def Let_def chunk_text_empty)

theorem process_pdf_keys_witness:
  "chunk_text (\<lambda>t. [t]) (extract_text_from_pdf (\<lambda>p. Inr [Inr ''Hello'']) ''a.pdf'') \<noteq> []
   \<and> map_of (process_pdf (\<lambda>p. Inr [Inr ''Hello'']) (\<lambda>t. [t]) (\<lambda>cs. Inr [[1]]) ''a.pdf'') ''metadata''
       = Some (PDict [(''source'', PStr ''a.pdf''), (''total_chunks'', PInt 1)])
   \<and> chunk_text (\<lambda>t. [t]) (extract_text_from_pdf (\<lambda>p. Inr [Inr ''   '']) ''b.pdf'') = []
   \<and> process_pdf (\<lambda>p. Inr [Inr ''   '']) (\<lambda>t. [t]) (\<lambda>cs. Inr [[1]]) ''b.pdf''
       = [(''chunks'', PList []), (''embeddings'', PList [])]"
proof -
  have a: "chunk_text (\<lambda>t. [t]) (extract_text_from_pdf (\<lambda>p. Inr [Inr ''Hello'']) ''a.pdf'')
             = [''Hello'' @ [CHR 0x0A]]"
    by code_simp
  have b: "chunk_text (\<lambda>t. [t]) (extract_text_from_pdf (\<lambda>p. Inr [Inr ''   '']) ''b.pdf'') = []"
    by code_simp
  show ?thesis
    using process_pdf_keys [of "\<lambda>p. Inr [Inr ''Hello'']" "\<lambda>t. [t]" "\<lambda>cs. Inr [[1]]" "''a.pdf''"]
          process_pdf_keys [of "\<lambda>p. Inr [Inr ''   '']" "\<lambda>t. [t]" "\<lambda>cs. Inr [[1]]" "''b.pdf''"]
    by (simp add: a b)
qed

section \<open>The weather summary and missing values\<close>

lemma title_Unknown: "title ''Unknown'' = ''Unknown''"
  by code_simp

text \<open>
  Claim C10, as stated, fails. An upstream answer that omits temperature, feels_like,
  humidity and wind speed gives a snapshot that holds these keys with the value None, and
  the summary prints "None" for each of them, not "N/A". A snapshot whose description is
  None makes the summary raise.
\<close>

theorem format_weather_counterexample:
  "get_weather (\<lambda>c. Inr (PDict [(''cod'', PInt 200), (''name'', PStr ''Unknown''), (''main'', PDict []),
       (''weather'', PList [PDict []]), (''wind'', PDict [])])) ''Atlantis''
     = Inr (Some [(''city'', PStr ''Unknown''), (''country'', PStr ''''), (''temperature'', PNone),
                  (''feels_like'', PNone), (''humidity'', PNone), (''description'', PStr ''''),
                  (''wind_speed'', PNone)])
   \<and> format_weather_response (\<lambda>v. [])
        [(''city'', PStr ''Unknown''), (''country'', PStr ''''), (''temperature'', PNone),
         (''feels_like'', PNone), (''humidity'', PNone), (''description'', PStr ''''),
         (''wind_speed'', PNone)]
     = Inr (weather_lines ''Unknown'' '''' ''None'' ''None'' '''' ''None'' ''None'')
   \<and> format_weather_response (\<lambda>v. []) [(''city'', PStr ''Unknown''), (''description'', PNone)]
     = Inl (AttributeError ''object has no attribute title'')"
  by (simp add: get_weather_def get_weather_body_def exn_bind_def dict_get_def
        format_weather_response_def title_def)

text \<open>
  Claim C10, amended. For every non-empty snapshot whose description is absent or a string,
  the summary is rendered without raising: a key of temperature, feels_like, humidity or
  wind_speed that is absent from the mapping is rendered as "N/A", a key that is present is
  rendered as the text of its value (a None value as "None"); an absent country is rendered
  as the empty string and an absent description as "Unknown". In particular the snapshot
  that holds only city = "Unknown" renders with "N/A" in the four places.
\<close>

theorem format_weather_response_missing:
  assumes "weather_data \<noteq> []"
    and "map_of weather_data ''description'' = None
         \<or> (\<exists>s. map_of weather_data ''description'' = Some (PStr s))"
  shows "format_weather_response py_str weather_data =
     Inr (weather_lines
       (case map_of weather_data ''city'' of None \<Rightarrow> ''Unknown'' | Some v \<Rightarrow> fmt py_str v)
       (case map_of weather_data ''country'' of None \<Rightarrow> '''' | Some v \<Rightarrow> fmt py_str v)
       (case map_of weather_data ''temperature'' of None \<Rightarrow> ''N/A'' | Some v \<Rightarrow> fmt py_str v)
       (case map_of weather_data ''feels_like'' of None \<Rightarrow> ''N/A'' | Some v \<Rightarrow> fmt py_str v)
       (case map_of weather_data ''description'' of Some (PStr s) \<Rightarrow> title s | _ \<Rightarrow> ''Unknown'')
       (case map_of weather_data ''humidity'' of None \<Rightarrow> ''N/A'' | Some v \<Rightarrow> fmt py_str v)
       (case map_of weather_data ''wind_speed'' of None \<Rightarrow> ''N/A'' | Some v \<Rightarrow> fmt py_str v))"
  using assms
  by (auto simp: format_weather_response_def exn_bind_def dict_get_def title_Unknown
           split: option.splits)

theorem format_weather_response_missing_witness:
  "[(''city'', PStr ''Unknown'')] \<noteq> []
   \<and> map_of [(''city'', PStr ''Unknown'')] ''description'' = None
   \<and> format_weather_response (\<lambda>v. []) [(''city'', PStr ''Unknown'')]
       = Inr (weather_lines ''Unknown'' '''' ''N/A'' ''N/A'' ''Unknown'' ''N/A'' ''N/A'')"
  using format_weather_response_missing [of "[(''city'', PStr ''Unknown'')]" "\<lambda>v. []"]
  by simp

section \<open>The backend flag only goes from persistent to local\<close>









lemma init_local:
  "VectorStore_init [] [] cloud = \<lparr>use_cloud = False, memory_store = Some [], uuid_calls = 0\<rparr>"
  by (simp add: VectorStore_init_def)

lemma init_cloud:
  "VectorStore_init ''https://qdrant.example'' ''key'' reachable_cloud
     = \<lparr>use_cloud = True, memory_store = None, uuid_calls = 0\<rparr>"
  by (simp add: VectorStore_init_def ensure_collection_def reachable_cloud_def exn_bind_def)


section \<open>The descending stable sort\<close>

lemma sort_reverse_sorted:
  "sorted_wrt (\<lambda>a b. key b \<le> key a) (sort_reverse key xs)"
proof -
  have "sorted (map key (sort_key key (rev xs)))" by (rule sorted_sort_key)
  then have "sorted_wrt (\<lambda>a b. key a \<le> key b) (sort_key key (rev xs))"
    by (simp add: sorted_map)
  then show ?thesis
    by (simp add: sort_reverse_def sorted_wrt_rev)
qed

lemma sort_reverse_stable:
  "filter (\<lambda>y. key y = k) (sort_reverse key xs) = filter (\<lambda>y. key y = k) xs"
  by (simp add: sort_reverse_def rev_filter [symmetric] sort_key_stable)

lemma sort_reverse_set: "set (sort_reverse key xs) = set xs"
  by (simp add: sort_reverse_def)

lemma sort_reverse_length: "length (sort_reverse key xs) = length xs"
  by (simp add: sort_reverse_def)



lemma slice_to_nonneg: "0 \<le> limit \<Longrightarrow> slice_to limit xs = take (nat limit) xs"
  by (simp add: slice_to_def)

section \<open>Cosine similarity over the reals\<close>

text \<open>
  These facts hold for the real-number reading of \<open>_cosine_similarity\<close>. They say nothing
  about the rounding, underflow or overflow of the floating-point computation.
\<close>

lemma sum_squares_nonneg: "0 \<le> sum_list (map (\<lambda>x. x * x) (v :: real list))"
  by (induction v) simp_all

lemma sum_squares_zero_iff:
  "sum_list (map (\<lambda>x. x * x) (v :: real list)) = 0 \<longleftrightarrow> (\<forall>x\<in>set v. x = 0)"
proof (induction v)
  case Nil
  then show ?case by simp
next
  case (Cons a v)
  have "0 \<le> a * a" by simp
  with sum_squares_nonneg [of v]
  have "a * a + sum_list (map (\<lambda>x. x * x) v) = 0 \<longleftrightarrow> a * a = 0 \<and> sum_list (map (\<lambda>x. x * x) v) = 0"
    by (simp add: add_nonneg_eq_0_iff)
  with Cons show ?case by auto
qed

lemma norm2_zero_iff: "norm2 v = 0 \<longleftrightarrow> (\<forall>x\<in>set v. x = 0)"
  by (simp add: norm2_def sum_squares_zero_iff)


lemma dot_commute: "dot a b = dot b a"
proof -
  have "zip a b = map (\<lambda>p. (snd p, fst p)) (zip b a)"
    by (subst zip_commute) (simp add: case_prod_beta)
  then show ?thesis
    by (simp add: dot_def comp_def mult.commute)
qed

lemma cosine_similarity_commute: "cosine_similarity a b = cosine_similarity b a"
  by (auto simp: cosine_similarity_def cosine_similarity_body_def Let_def dot_commute mult.commute)

lemma cosine_similarity_zero_norm:
  "norm2 a = 0 \<or> norm2 b = 0 \<Longrightarrow> cosine_similarity a b = 0"
  by (auto simp: cosine_similarity_def cosine_similarity_body_def Let_def)


lemma cos_10_01: "cosine_similarity [1, 0] [0, 1] = 0"
  by (simp add: cosine_similarity_def cosine_similarity_body_def dot_def norm2_def)

lemma cos_10_10: "cosine_similarity [1, 0] [1, 0] = 1"
  by (simp add: cosine_similarity_def cosine_similarity_body_def dot_def norm2_def)

section \<open>Local search: length, order and ties\<close>

lemma sample_search_2:
  "search_memory (\<lambda>q. [1, 0]) ''what?'' 2 sample_store =
     [[(''text'', PStr ''b''), (''score'', PFloat 1), (''metadata'', PDict [])],
      [(''text'', PStr ''c''), (''score'', PFloat 1), (''metadata'', PDict [])]]"
  by (simp add: search_memory_def search_memory_body_def sample_store_def sample_item_def
        similarities_def cos_10_01 cos_10_10 sort_reverse_def slice_to_def match_of_def)

text \<open>
  Claim C4, as stated, fails for a negative limit: the slice \<open>[:limit]\<close> then drops
  records from the end of the ranking. With three stored records and limit \<open>-1\<close> the search
  returns two results.
\<close>

theorem search_memory_limit_counterexample:
  "search_memory (\<lambda>q. [1, 0]) ''what?'' (- 1) sample_store =
     [[(''text'', PStr ''b''), (''score'', PFloat 1), (''metadata'', PDict [])],
      [(''text'', PStr ''c''), (''score'', PFloat 1), (''metadata'', PDict [])]]
   \<and> \<not> int (length (search_memory (\<lambda>q. [1, 0]) ''what?'' (- 1) sample_store)) \<le> - 1"
  by (simp add: search_memory_def search_memory_body_def sample_store_def sample_item_def
        similarities_def cos_10_01 cos_10_10 sort_reverse_def slice_to_def match_of_def)

text \<open>
  Claim C4, amended. For every instance, query and limit that is not negative,
  \<open>_search_memory\<close> returns the first \<open>limit\<close> entries of a ranking, so at most \<open>limit\<close>
  results. The ranking is ordered by non-increasing score; each score is the cosine
  similarity of the query embedding with the stored vector of its record; when the store and
  the query embedding exist the ranking holds exactly the stored records, and the records of
  equal score appear in their stored order. With no store or no query embedding the result
  is empty. Scores are real numbers here.
\<close>

theorem search_memory_ranked:
  assumes "0 \<le> limit"
  shows "\<exists>ranked.
      search_memory query_emb q limit s = map match_of (take (nat limit) ranked)
    \<and> int (length (search_memory query_emb q limit s)) \<le> limit
    \<and> sorted_wrt (\<lambda>a b. fst b \<le> fst a) ranked
    \<and> (\<forall>p\<in>set ranked. fst p = cosine_similarity (query_emb q) (item_vector (snd p)))
    \<and> (\<forall>ms. memory_store s = Some ms \<and> query_emb q \<noteq> [] \<longrightarrow>
          set (map snd ranked) = set ms \<and> length ranked = length ms
          \<and> (\<forall>k. map snd (filter (\<lambda>p. fst p = k) ranked)
                 = filter (\<lambda>it. cosine_similarity (query_emb q) (item_vector it) = k) ms))
    \<and> (memory_store s = None \<or> query_emb q = [] \<longrightarrow> ranked = [])"
proof (cases "memory_store s")
  case None
  then have "search_memory query_emb q limit s = []"
    by (simp add: search_memory_def search_memory_body_def)
  with None assms show ?thesis by (intro exI [of _ "[]"]) simp
next
  case (Some ms)
  show ?thesis
  proof (cases "query_emb q = []")
    case True
    with Some have "search_memory query_emb q limit s = []"
      by (simp add: search_memory_def search_memory_body_def)
    with Some True assms show ?thesis by (intro exI [of _ "[]"]) simp
  next
    case False
    define ranked where "ranked = sort_reverse fst (similarities (query_emb q) ms)"
    have r: "search_memory query_emb q limit s = map match_of (take (nat limit) ranked)"
      using Some False assms
      by (cases "ms = []")
         (simp_all add: search_memory_def search_memory_body_def Let_def ranked_def
            slice_to_nonneg sort_reverse_def similarities_def)
    have len: "int (length (search_memory query_emb q limit s)) \<le> limit"
      using assms by (simp add: r)
    have srt: "sorted_wrt (\<lambda>a b. fst b \<le> fst a) ranked"
      unfolding ranked_def by (rule sort_reverse_sorted)
    have sc: "\<forall>p\<in>set ranked. fst p = cosine_similarity (query_emb q) (item_vector (snd p))"
      by (auto simp: ranked_def sort_reverse_set similarities_def)
    have st: "set (map snd ranked) = set ms"
      by (auto simp: ranked_def sort_reverse_set similarities_def image_iff)
    have ln: "length ranked = length ms"
      by (simp add: ranked_def sort_reverse_length similarities_def)
    have stab: "map snd (filter (\<lambda>p. fst p = k) ranked)
                 = filter (\<lambda>it. cosine_similarity (query_emb q) (item_vector it) = k) ms" for k
      by (simp add: ranked_def sort_reverse_stable similarities_def filter_map comp_def)
    show ?thesis
      using r len srt sc st ln stab Some False
      by (intro exI [of _ ranked]) simp
  qed
qed

theorem search_memory_ranked_witness:
  "(0 :: int) \<le> 2
   \<and> int (length (search_memory (\<lambda>q. [1, 0]) ''what?'' 2 sample_store)) \<le> 2
   \<and> search_memory (\<lambda>q. [1, 0]) ''what?'' 2 sample_store =
     [[(''text'', PStr ''b''), (''score'', PFloat 1), (''metadata'', PDict [])],
      [(''text'', PStr ''c''), (''score'', PFloat 1), (''metadata'', PDict [])]]"
proof -
  have h: "(0 :: int) \<le> 2" by simp
  from search_memory_ranked [OF h, of "\<lambda>q. [1, 0]" "''what?''" sample_store]
  have l: "int (length (search_memory (\<lambda>q. [1, 0]) ''what?'' 2 sample_store)) \<le> 2"
    by blast
  show ?thesis using h l sample_search_2 by simp
qed

section \<open>Storing on the local backend\<close>

lemma store_memory_loop_Some:
  "memory_store s = Some ms \<Longrightarrow>
     store_memory_loop uuid4 md ps s =
       (None, s\<lparr>memory_store :=
                  Some (ms @ map (\<lambda>kp. \<lparr>item_id = uuid4 (uuid_calls s + fst kp),
                                         item_vector = snd (snd (snd kp)),
                                         item_text = fst (snd (snd kp)),
                                         item_chunk_index = fst (snd kp),
                                         item_metadata = or_empty md\<rparr>) (enumerate 0 ps)),
                uuid_calls := uuid_calls s + length ps\<rparr>)"
proof (induction ps arbitrary: s ms)
  case Nil
  then show ?case by (cases s) simp
next
  case (Cons p ps)
  obtain i c e where p: "p = (i, c, e)" by (cases p) auto
  let ?it = "\<lparr>item_id = uuid4 (uuid_calls s), item_vector = e, item_text = c,
              item_chunk_index = i, item_metadata = or_empty md\<rparr>"
  let ?s1 = "s\<lparr>memory_store := Some (ms @ [?it]), uuid_calls := Suc (uuid_calls s)\<rparr>"
  have m1: "memory_store ?s1 = Some (ms @ [?it])" by simp
  show ?case
    using Cons.prems Cons.IH [OF m1]
    by (simp add: p enumerate_Suc_eq comp_def)
qed

lemma enumerate_zip_nth:
  "enumerate 0 (enumerate 0 (zip cs vs)) =
     map (\<lambda>i. (i, i, cs ! i, vs ! i)) [0..<min (length cs) (length vs)]"
  by (rule nth_equalityI) (simp_all add: nth_enumerate_eq)

lemma store_memory_result:
  assumes "memory_store s = Some ms"
  shows "fst (store_memory uuid4 chunks vectors metadata s) = True
    \<and> use_cloud (snd (store_memory uuid4 chunks vectors metadata s)) = use_cloud s
    \<and> memory_store (snd (store_memory uuid4 chunks vectors metadata s)) =
        Some (ms @ map (\<lambda>i. \<lparr>item_id = uuid4 (uuid_calls s + i), item_vector = vectors ! i,
                              item_text = chunks ! i, item_chunk_index = i,
                              item_metadata = or_empty metadata\<rparr>)
                       [0..<min (length chunks) (length vectors)])
    \<and> uuid_calls (snd (store_memory uuid4 chunks vectors metadata s)) =
        uuid_calls s + min (length chunks) (length vectors)"
proof -
  have loop: "store_memory_loop uuid4 metadata (enumerate 0 (zip chunks vectors)) s =
       (None, s\<lparr>memory_store :=
                  Some (ms @ map (\<lambda>i. \<lparr>item_id = uuid4 (uuid_calls s + i), item_vector = vectors ! i,
                              item_text = chunks ! i, item_chunk_index = i,
                              item_metadata = or_empty metadata\<rparr>)
                       [0..<min (length chunks) (length vectors)]),
                uuid_calls := uuid_calls s + min (length chunks) (length vectors)\<rparr>)"
    by (simp add: store_memory_loop_Some [OF assms] enumerate_zip_nth comp_def)
  show ?thesis
    by (simp add: store_memory_def loop)
qed

lemma store_memory_without_list:
  "memory_store s = None \<Longrightarrow>
     store_memory uuid4 (c # cs) (v # vs) metadata s = (False, s)"
  by (simp add: store_memory_def enumerate_simps)

lemma inj_serial_id: "inj serial_id"
  by (rule injI) (metis length_replicate serial_id_def)

text \<open>
  Claim C7, as stated, fails. The local record keeps the caller's metadata in its own field
  and \<open>chunk_index\<close> beside it, not merged: the metadata that a search returns has no
  \<open>chunk_index\<close>, while the payload built for the persistent store has it. And on an instance
  that started on the persistent store and is demoted by a failed upsert, the in-memory list
  was never created: the store appends nothing and returns false.
\<close>

theorem store_memory_counterexample:
  "snd (store_memory serial_id [''a''] [[1]] (Some [(''filename'', PStr ''f.pdf'')])
          (VectorStore_init [] [] unreachable_cloud))
     = \<lparr>use_cloud = False,
        memory_store = Some [\<lparr>item_id = '''', item_vector = [1], item_text = ''a'',
                               item_chunk_index = 0,
                               item_metadata = [(''filename'', PStr ''f.pdf'')]\<rparr>],
        uuid_calls = 1\<rparr>
   \<and> map_of [(''filename'', PStr ''f.pdf'')] ''chunk_index'' = None
   \<and> search_memory (\<lambda>q. [1]) ''what?'' 5
        (snd (store_memory serial_id [''a''] [[1]] (Some [(''filename'', PStr ''f.pdf'')])
                (VectorStore_init [] [] unreachable_cloud)))
     = [[(''text'', PStr ''a''), (''score'', PFloat 1),
         (''metadata'', PDict [(''filename'', PStr ''f.pdf'')])]]
   \<and> map point_payload (build_points serial_id (Some [(''filename'', PStr ''f.pdf'')]) 0
          (enumerate 0 (zip [''a''] [[1]])))
     = [[(''text'', PStr ''a''), (''chunk_index'', PInt 0), (''filename'', PStr ''f.pdf'')]]
   \<and> store_embeddings serial_id unreachable_cloud [''a''] [[1]] None
        (VectorStore_init ''https://qdrant.example'' ''key'' reachable_cloud)
     = (False, \<lparr>use_cloud = False, memory_store = None, uuid_calls = 1\<rparr>)"
  by (simp add: init_local init_cloud store_memory_def serial_id_def or_empty_def
        search_memory_def search_memory_body_def similarities_def sort_reverse_def slice_to_def
        match_of_def cosine_similarity_def cosine_similarity_body_def dot_def norm2_def
        dict_merge_def store_embeddings_def store_cloud_def unreachable_cloud_def)

text \<open>
  Claim C7, amended. On an instance whose in-memory list exists, for every chunks list,
  vectors list and optional metadata mapping, \<open>_store_memory\<close> returns true and appends
  exactly min(len(chunks), len(vectors)) records in order: record \<open>i\<close> pairs \<open>chunks[i]\<close>
  with \<open>vectors[i]\<close>, takes the next identifier drawn from the generator, has the field
  \<open>chunk_index = i\<close> and a separate field \<open>metadata\<close> holding the caller's mapping as it is
  (the empty mapping when none is given). When the generator never repeats, the new
  identifiers differ from each other and from every identifier drawn before.
\<close>

theorem store_memory_pairs:
  assumes "memory_store s = Some ms"
  shows "fst (store_memory uuid4 chunks vectors metadata s) = True
    \<and> use_cloud (snd (store_memory uuid4 chunks vectors metadata s)) = use_cloud s
    \<and> memory_store (snd (store_memory uuid4 chunks vectors metadata s)) =
        Some (ms @ map (\<lambda>i. \<lparr>item_id = uuid4 (uuid_calls s + i), item_vector = vectors ! i,
                              item_text = chunks ! i, item_chunk_index = i,
                              item_metadata = or_empty metadata\<rparr>)
                       [0..<min (length chunks) (length vectors)])
    \<and> uuid_calls (snd (store_memory uuid4 chunks vectors metadata s)) =
        uuid_calls s + min (length chunks) (length vectors)
    \<and> (inj uuid4 \<longrightarrow>
         distinct (map (\<lambda>i. uuid4 (uuid_calls s + i)) [0..<min (length chunks) (length vectors)])
         \<and> (\<forall>i k. k < uuid_calls s \<longrightarrow> uuid4 (uuid_calls s + i) \<noteq> uuid4 k))"
proof -
  have d: "inj uuid4 \<Longrightarrow>
         distinct (map (\<lambda>i. uuid4 (uuid_calls s + i)) [0..<min (length chunks) (length vectors)])"
    by (auto simp: distinct_map intro!: inj_onI dest!: injD)
  have f: "inj uuid4 \<Longrightarrow> k < uuid_calls s \<Longrightarrow> uuid4 (uuid_calls s + i) \<noteq> uuid4 k" for i k
    by (auto dest: injD)
  have b: "inj uuid4 \<longrightarrow>
         distinct (map (\<lambda>i. uuid4 (uuid_calls s + i)) [0..<min (length chunks) (length vectors)])
         \<and> (\<forall>i k. k < uuid_calls s \<longrightarrow> uuid4 (uuid_calls s + i) \<noteq> uuid4 k)"
    using d f by blast
  show ?thesis
    using store_memory_result [OF assms, of uuid4 chunks vectors metadata] b by blast
qed

theorem store_memory_pairs_witness:
  "memory_store (VectorStore_init [] [] unreachable_cloud) = Some []
   \<and> inj serial_id
   \<and> store_memory serial_id [''a'', ''b'', ''c''] [[1], [2]] (Some [(''filename'', PStr ''f.pdf'')])
        (VectorStore_init [] [] unreachable_cloud)
     = (True, \<lparr>use_cloud = False,
               memory_store = Some
                 [\<lparr>item_id = '''', item_vector = [1], item_text = ''a'', item_chunk_index = 0,
                   item_metadata = [(''filename'', PStr ''f.pdf'')]\<rparr>,
                  \<lparr>item_id = ''x'', item_vector = [2], item_text = ''b'', item_chunk_index = 1,
                   item_metadata = [(''filename'', PStr ''f.pdf'')]\<rparr>],
               uuid_calls = 2\<rparr>)"
proof -
  let ?s = "VectorStore_init [] [] unreachable_cloud"
  have 1: "memory_store ?s = Some []" by (simp add: init_local)
  have up: "[0..<2] = [0, Suc 0]" by (simp add: upt_rec)
  let ?r = "store_memory serial_id [''a'', ''b'', ''c''] [[1], [2]]
              (Some [(''filename'', PStr ''f.pdf'')]) ?s"
  from store_memory_pairs [OF 1, of serial_id "[''a'', ''b'', ''c'']" "[[1], [2]]"
         "Some [(''filename'', PStr ''f.pdf'')]"]
  have f: "fst ?r = True" and u: "use_cloud (snd ?r) = False"
    and m: "memory_store (snd ?r) = Some
                 [\<lparr>item_id = '''', item_vector = [1], item_text = ''a'', item_chunk_index = 0,
                   item_metadata = [(''filename'', PStr ''f.pdf'')]\<rparr>,
                  \<lparr>item_id = ''x'', item_vector = [2], item_text = ''b'', item_chunk_index = 1,
                   item_metadata = [(''filename'', PStr ''f.pdf'')]\<rparr>]"
    and c: "uuid_calls (snd ?r) = 2"
    by (simp_all add: init_local up serial_id_def or_empty_def)
  have "?r = (True, \<lparr>use_cloud = False,
               memory_store = Some
                 [\<lparr>item_id = '''', item_vector = [1], item_text = ''a'', item_chunk_index = 0,
                   item_metadata = [(''filename'', PStr ''f.pdf'')]\<rparr>,
                  \<lparr>item_id = ''x'', item_vector = [2], item_text = ''b'', item_chunk_index = 1,
                   item_metadata = [(''filename'', PStr ''f.pdf'')]\<rparr>],
               uuid_calls = 2\<rparr>)"
    using f u m c by (cases ?r) (auto intro: vector_store.equality)
  then show ?thesis using 1 inj_serial_id by simp
qed

section \<open>Store, then search\<close>



end
